theory Spec2Isabelle
  imports Main "HOL-Library.Sublist"
begin

section \<open>Middleware: session refresh and route protection\<close>

text \<open>
  The embedding follows \<^verbatim>\<open>updateSession\<close> of \<^verbatim>\<open>lib/supabase/middleware.ts\<close>
  as listed in the project's Supabase SSR rules. The request URL (\<^verbatim>\<open>request.nextUrl\<close>)
  is a record of its components; assigning \<^verbatim>\<open>url.pathname\<close> is a record update.
\<close>

record url =
  protocol :: string
  hostname :: string
  port :: string
  pathname :: string
  search :: string
  hash :: string

record cookie_options =
  maxAge :: "int option"
  cookie_path :: "string option"

text \<open>An element of \<^verbatim>\<open>cookiesToSet\<close>: \<^verbatim>\<open>{ name, value, options }\<close>.\<close>

record cookie_to_set =
  cookie_name :: string
  cookie_value :: string
  options :: cookie_options

record user =
  user_id :: string

type_synonym request_cookies = "(string \<times> string) list"
type_synonym response_cookies = "(string \<times> string \<times> cookie_options) list"

record request =
  cookies :: request_cookies
  nextUrl :: url

text \<open>
  A response is either \<^verbatim>\<open>NextResponse.next({ request })\<close>, which lets the request through
  with the request's (possibly rewritten) cookies, or \<^verbatim>\<open>NextResponse.redirect(url)\<close>.
  Either carries its own set of response cookies.
\<close>

datatype response_kind = Next request_cookies | Redirect url

record response =
  kind :: response_kind
  response_cookies :: response_cookies

text \<open>
  \<^verbatim>\<open>cookies.set(name, value)\<close> on a cookie jar keyed by name: an existing entry keeps its
  place and takes the new value, a new name goes last.
\<close>

fun cookies_set :: "string \<Rightarrow> 'v \<Rightarrow> (string \<times> 'v) list \<Rightarrow> (string \<times> 'v) list" where
  "cookies_set n v [] = [(n, v)]"
| "cookies_set n v (c # cs) = (if fst c = n then (n, v) # cs else c # cookies_set n v cs)"

definition NextResponse_next :: "request \<Rightarrow> response" where
  "NextResponse_next request = \<lparr>kind = Next (cookies request), response_cookies = []\<rparr>"

definition NextResponse_redirect :: "url \<Rightarrow> response" where
  "NextResponse_redirect u = \<lparr>kind = Redirect u, response_cookies = []\<rparr>"

text \<open>
  The \<^verbatim>\<open>setAll\<close> callback handed to \<^verbatim>\<open>createServerClient\<close>. It closes over
  \<^verbatim>\<open>request\<close> and the variable \<^verbatim>\<open>supabaseResponse\<close>; here both are passed in and
  returned. The first loop writes name and value into the request's cookies, then
  \<^verbatim>\<open>supabaseResponse\<close> is replaced by a fresh \<^verbatim>\<open>NextResponse.next({ request })\<close>,
  then the second loop writes every cookie with its options onto that response.
\<close>

definition setAll :: "request \<times> response \<Rightarrow> cookie_to_set list \<Rightarrow> request \<times> response" where
  "setAll st cookiesToSet =
     (let request = foldl (\<lambda>r c. r\<lparr>cookies := cookies_set (cookie_name c) (cookie_value c) (cookies r)\<rparr>)
                      (fst st) cookiesToSet;
          supabaseResponse = NextResponse_next request
      in (request,
          foldl (\<lambda>r c. r\<lparr>response_cookies :=
                    cookies_set (cookie_name c) (cookie_value c, options c) (response_cookies r)\<rparr>)
            supabaseResponse cookiesToSet))"

text \<open>
  What \<^verbatim>\<open>await supabase.auth.getUser()\<close> does as seen from the middleware: it reads the
  request's cookies through \<^verbatim>\<open>getAll\<close>, calls \<^verbatim>\<open>setAll\<close> some number of times (once per
  batch of cookie mutations), and then either resolves to \<^verbatim>\<open>{ data: { user }, error }\<close>
  or rejects. A rejected promise is \<open>Inl\<close>; the middleware has no handler for it.
\<close>

datatype auth_error = AuthError string

record getUser_result =
  setAll_calls :: "cookie_to_set list list"
  data_user :: "user option"
  getUser_error :: "auth_error option"

type_synonym auth_client = "request_cookies \<Rightarrow> string + getUser_result"

definition protectedRoutes :: "string list" where
  "protectedRoutes = [''/dashboard'']"

text \<open>\<^verbatim>\<open>s.startsWith(p)\<close>: the characters of \<open>p\<close> are compared with those of \<open>s\<close> from position 0.\<close>

fun startsWith :: "string \<Rightarrow> string \<Rightarrow> bool" where
  "startsWith s [] = True"
| "startsWith [] (c # p) = False"
| "startsWith (x # s) (c # p) = (x = c \<and> startsWith s p)"

text \<open>\<^verbatim>\<open>xs.some(f)\<close>.\<close>

fun some :: "'a list \<Rightarrow> ('a \<Rightarrow> bool) \<Rightarrow> bool" where
  "some [] f = False"
| "some (x # xs) f = (f x \<or> some xs f)"

text \<open>
  The route protection logic of \<^verbatim>\<open>updateSession\<close>: the condition of its \<^verbatim>\<open>if\<close>, with
  the pathname the redirect is sent to.
\<close>

datatype decision = Allow | RedirectTo string

definition decide :: "string \<Rightarrow> user option \<Rightarrow> decision" where
  "decide path usr =
     (if usr = None \<and> some protectedRoutes (\<lambda>p. startsWith path p)
      then RedirectTo ''/login'' else Allow)"

definition updateSession :: "auth_client \<Rightarrow> request \<Rightarrow> string + response" where
  "updateSession getUser request0 =
     (let supabaseResponse0 = NextResponse_next request0
      in case getUser (cookies request0) of
           Inl thrown \<Rightarrow> Inl thrown
         | Inr result \<Rightarrow>
             (let (request, supabaseResponse) =
                    foldl setAll (request0, supabaseResponse0) (setAll_calls result);
                  usr = data_user result
              in case decide (pathname (nextUrl request)) usr of
                   RedirectTo target \<Rightarrow>
                     Inr (NextResponse_redirect ((nextUrl request)\<lparr>pathname := target\<rparr>))
                 | Allow \<Rightarrow> Inr supabaseResponse))"

section \<open>The identity provider's session check\<close>

text \<open>
  What the provider makes of a session token, and the cookie mutation that clears a
  cookie: an empty value that expires at once.
\<close>

datatype session_verdict = Valid user | Renewed user string | Expired | Rejected | Unreachable

record identity_provider =
  session_cookie :: string
  verdict :: "string \<Rightarrow> session_verdict"

definition clearing :: "string \<Rightarrow> cookie_to_set" where
  "clearing n = \<lparr>cookie_name = n, cookie_value = [],
                 options = \<lparr>maxAge = Some 0, cookie_path = Some ''/''\<rparr>\<rparr>"

definition is_clearing :: "cookie_to_set \<Rightarrow> bool" where
  "is_clearing c = (cookie_value c = [] \<and> maxAge (options c) = Some 0)"

text \<open>
  Modelled from the spec: the identity provider's validate/refresh-session operation, which
  the middleware reaches through \<^verbatim>\<open>supabase.auth.getUser()\<close> of the \<^verbatim>\<open>@supabase/ssr\<close>
  client; that client's code is not part of the sources. The spec gives it as
  \<^verbatim>\<open>validate/refresh-session(cookies) -> (user|absent, mutations)\<close>, where a renewed or a
  cleared token is reported as a cookie mutation, and where an unreachable provider or a
  rejected token gives an absent user with an empty or clearing mutation set and never a
  throw. The provider's knowledge of tokens is the function \<open>verdict\<close>.
\<close>

definition validate_session :: "identity_provider \<Rightarrow> auth_client" where
  "validate_session idp cs =
     (case map_of cs (session_cookie idp) of
        None \<Rightarrow>
          Inr \<lparr>setAll_calls = [], data_user = None,
               getUser_error = Some (AuthError ''session missing'')\<rparr>
      | Some token \<Rightarrow>
          (case verdict idp token of
             Valid u \<Rightarrow> Inr \<lparr>setAll_calls = [], data_user = Some u, getUser_error = None\<rparr>
           | Renewed u token' \<Rightarrow>
               Inr \<lparr>setAll_calls =
                      [[\<lparr>cookie_name = session_cookie idp, cookie_value = token',
                         options = \<lparr>maxAge = None, cookie_path = Some ''/''\<rparr>\<rparr>]],
                    data_user = Some u, getUser_error = None\<rparr>
           | Expired \<Rightarrow>
               Inr \<lparr>setAll_calls = [[clearing (session_cookie idp)]], data_user = None,
                    getUser_error = Some (AuthError ''session expired'')\<rparr>
           | Rejected \<Rightarrow>
               Inr \<lparr>setAll_calls = [[clearing (session_cookie idp)]], data_user = None,
                    getUser_error = Some (AuthError ''invalid token'')\<rparr>
           | Unreachable \<Rightarrow>
               Inr \<lparr>setAll_calls = [], data_user = None,
                    getUser_error = Some (AuthError ''provider unreachable'')\<rparr>))"

subsection \<open>A request with a stale session\<close>

definition stale_request :: request where
  "stale_request =
     \<lparr>cookies = [(''theme'', ''dark''), (''sb-auth-token'', ''t0'')],
      nextUrl = \<lparr>protocol = ''https:'', hostname = ''app.example.com'', port = ''3000'',
                 pathname = ''/dashboard/clients'', search = ''?tab=plans'', hash = ''#top''\<rparr>\<rparr>"

definition stale_provider :: identity_provider where
  "stale_provider = \<lparr>session_cookie = ''sb-auth-token'', verdict = (\<lambda>t. Expired)\<rparr>"

text \<open>
  A client whose \<^verbatim>\<open>getUser\<close> hands one clearing mutation to \<^verbatim>\<open>setAll\<close> and resolves
  without a user.
\<close>

definition signed_out_result :: getUser_result where
  "signed_out_result =
     \<lparr>setAll_calls = [[clearing ''sb-auth-token'']], data_user = None,
      getUser_error = Some (AuthError ''session expired'')\<rparr>"

definition signed_out_client :: auth_client where
  "signed_out_client cs = Inr signed_out_result"

section \<open>Signup: the server action\<close>

text \<open>
  The embedding follows \<^verbatim>\<open>signup\<close> of the authentication server actions. The action
  talks to two stores through the Supabase client: the identity provider
  (\<^verbatim>\<open>auth.signUp\<close>, \<^verbatim>\<open>auth.admin.deleteUser\<close>) and the \<^verbatim>\<open>profiles\<close> table.
  Every awaited call resolves to a response object with an \<^verbatim>\<open>error\<close> field; the answers
  the stores give in one execution are the \<open>backend\<close>, and the contents of the stores
  together with the sequence of calls made are the \<open>world\<close>, passed in and returned.
\<close>

datatype db_error = PostgrestError string

record auth_response =
  authData_user :: "user option"
  authError :: "auth_error option"

record identity =
  identity_id :: string
  identity_email :: "string option"

record profile =
  profile_id :: string
  profile_email :: "string option"
  profile_role :: string

datatype logged = Auth_error auth_error | Db_error db_error

datatype call =
    SignUp "string option" "string option" string auth_response
  | Insert string profile "db_error option"
  | DeleteUser string "auth_error option"
  | ConsoleError string logged
  | RevalidatePath string string

record backend =
  signUp_answer :: auth_response
  insert_answer :: "db_error option"
  deleteUser_answer :: "auth_error option"

record world =
  identities :: "identity list"
  profiles :: "profile list"
  calls :: "call list"

text \<open>
  \<^verbatim>\<open>formData.get(k)\<close> is \<^verbatim>\<open>null\<close> for a missing field; the cast \<^verbatim>\<open>as string\<close> does not
  change the value.
\<close>

type_synonym form_data = "string \<Rightarrow> string option"

text \<open>
  \<^verbatim>\<open>supabase.auth.signUp({ email, password, options: { data: { role } } })\<close>. The provider
  holds a new identity exactly when it answers without an error and with a user.
\<close>

definition auth_signUp ::
    "backend \<Rightarrow> string option \<Rightarrow> string option \<Rightarrow> string \<Rightarrow> world \<Rightarrow> auth_response \<times> world" where
  "auth_signUp supabase email password role w =
     (let answer = signUp_answer supabase;
          created =
            (case authError answer of
               Some e \<Rightarrow> []
             | None \<Rightarrow>
                 (case authData_user answer of
                    None \<Rightarrow> []
                  | Some u \<Rightarrow> [\<lparr>identity_id = user_id u, identity_email = email\<rparr>]))
      in (answer,
          w\<lparr>identities := identities w @ created,
            calls := calls w @ [SignUp email password role answer]\<rparr>))"

text \<open>\<^verbatim>\<open>supabase.from(table).insert(row)\<close>: the row is stored when the answer has no error.\<close>

definition from_insert :: "backend \<Rightarrow> string \<Rightarrow> profile \<Rightarrow> world \<Rightarrow> db_error option \<times> world" where
  "from_insert supabase table_name new_row w =
     (let answer = insert_answer supabase
      in (answer,
          w\<lparr>profiles := (case answer of None \<Rightarrow> profiles w @ [new_row] | Some e \<Rightarrow> profiles w),
            calls := calls w @ [Insert table_name new_row answer]\<rparr>))"

text \<open>\<^verbatim>\<open>supabase.auth.admin.deleteUser(id)\<close>: the identity is removed when the answer has no error.\<close>

definition auth_admin_deleteUser :: "backend \<Rightarrow> string \<Rightarrow> world \<Rightarrow> auth_error option \<times> world" where
  "auth_admin_deleteUser supabase uid w =
     (let answer = deleteUser_answer supabase
      in (answer,
          w\<lparr>identities :=
              (case answer of
                 None \<Rightarrow> filter (\<lambda>i. identity_id i \<noteq> uid) (identities w)
               | Some e \<Rightarrow> identities w),
            calls := calls w @ [DeleteUser uid answer]\<rparr>))"

definition console_error :: "string \<Rightarrow> logged \<Rightarrow> world \<Rightarrow> world" where
  "console_error label x w = w\<lparr>calls := calls w @ [ConsoleError label x]\<rparr>"

definition revalidatePath :: "string \<Rightarrow> string \<Rightarrow> world \<Rightarrow> world" where
  "revalidatePath p t w = w\<lparr>calls := calls w @ [RevalidatePath p t]\<rparr>"

text \<open>\<^verbatim>\<open>redirect(target)\<close> of \<^verbatim>\<open>next/navigation\<close> ends the action; it is the action's outcome.\<close>

datatype navigation = redirect string

text \<open>
  \<^verbatim>\<open>const userId = authData.user?.id; if (!userId) ...\<close>: the test succeeds when there is no
  user and when the id is the empty string.
\<close>

definition signup :: "backend \<Rightarrow> form_data \<Rightarrow> world \<Rightarrow> navigation \<times> world" where
  "signup supabase formData w0 =
     (let email = formData ''email'';
          password = formData ''password'';
          (answer, w1) = auth_signUp supabase email password ''coach'' w0
      in case authError answer of
           Some e \<Rightarrow>
             (redirect ''/login?message=Could not create account.'',
              console_error ''Signup Error:'' (Auth_error e) w1)
         | None \<Rightarrow>
             (case authData_user answer of
                None \<Rightarrow> (redirect ''/login?message=Account creation failed.'', w1)
              | Some u \<Rightarrow>
                  (let userId = user_id u
                   in if userId = [] then (redirect ''/login?message=Account creation failed.'', w1)
                      else
                        (let (profileError, w2) =
                               from_insert supabase ''profiles''
                                 \<lparr>profile_id = userId, profile_email = email,
                                  profile_role = ''coach''\<rparr> w1
                         in case profileError of
                              Some e \<Rightarrow>
                                (let w3 = console_error ''Profile creation error:'' (Db_error e) w2;
                                     (deleted, w4) = auth_admin_deleteUser supabase userId w3
                                 in (redirect ''/login?message=Account setup failed.'', w4))
                            | None \<Rightarrow>
                                (redirect ''/dashboard'', revalidatePath ''/'' ''layout'' w2)))))"

text \<open>The calls a run of \<open>signup\<close> adds to those already made.\<close>

definition signup_calls :: "backend \<Rightarrow> form_data \<Rightarrow> world \<Rightarrow> call list" where
  "signup_calls supabase formData w =
     drop (length (calls w)) (calls (snd (signup supabase formData w)))"

fun is_DeleteUser :: "call \<Rightarrow> bool" where
  "is_DeleteUser (DeleteUser uid a) = True"
| "is_DeleteUser c = False"

fun is_store_call :: "call \<Rightarrow> bool" where
  "is_store_call (SignUp e p r a) = True"
| "is_store_call (Insert t p a) = True"
| "is_store_call (DeleteUser uid a) = True"
| "is_store_call c = False"

fun is_ConsoleError :: "call \<Rightarrow> bool" where
  "is_ConsoleError (ConsoleError l x) = True"
| "is_ConsoleError c = False"

text \<open>The identities and the profiles a world holds under one id.\<close>

definition identities_of :: "string \<Rightarrow> world \<Rightarrow> identity list" where
  "identities_of uid w = filter (\<lambda>i. identity_id i = uid) (identities w)"

definition profiles_of :: "string \<Rightarrow> world \<Rightarrow> profile list" where
  "profiles_of uid w = filter (\<lambda>p. profile_id p = uid) (profiles w)"

subsection \<open>Signup executions used below\<close>

definition signup_form :: form_data where
  "signup_form = map_of [(''email'', ''a@x.com''), (''password'', ''pw'')]"

definition empty_world :: world where
  "empty_world = \<lparr>identities = [], profiles = [], calls = []\<rparr>"

definition created_U2 :: auth_response where
  "created_U2 = \<lparr>authData_user = Some \<lparr>user_id = ''U2''\<rparr>, authError = None\<rparr>"

definition all_succeed :: backend where
  "all_succeed = \<lparr>signUp_answer = created_U2, insert_answer = None, deleteUser_answer = None\<rparr>"

definition compensation_succeeds :: backend where
  "compensation_succeeds =
     \<lparr>signUp_answer = created_U2,
      insert_answer = Some (PostgrestError ''insert failed''),
      deleteUser_answer = None\<rparr>"

definition compensation_fails :: backend where
  "compensation_fails =
     \<lparr>signUp_answer = created_U2,
      insert_answer = Some (PostgrestError ''insert failed''),
      deleteUser_answer = Some (AuthError ''not allowed'')\<rparr>"

definition no_user_returned :: backend where
  "no_user_returned =
     \<lparr>signUp_answer = \<lparr>authData_user = None, authError = None\<rparr>,
      insert_answer = None, deleteUser_answer = None\<rparr>"

section \<open>Realtime data component\<close>

text \<open>
  The embedding follows \<^verbatim>\<open>ClientDataComponent\<close>: its state (\<^verbatim>\<open>data\<close>, \<^verbatim>\<open>loading\<close>),
  \<^verbatim>\<open>fetchData\<close> and the callback registered for \<^verbatim>\<open>postgres_changes\<close>. The store answers
  the query \<^verbatim>\<open>from("your_table").select("*").order("created_at", { ascending: false })\<close>
  from its rows, or with an error.
\<close>

record table_row =
  row_id :: string
  created_at :: int
  content :: string

record data_store =
  your_table :: "table_row list"
  unavailable :: "db_error option"

record select_response =
  fetchedData :: "table_row list option"
  select_error :: "db_error option"

definition select_ordered :: "data_store \<Rightarrow> select_response" where
  "select_ordered store =
     (case unavailable store of
        Some e \<Rightarrow> \<lparr>fetchedData = None, select_error = Some e\<rparr>
      | None \<Rightarrow>
          \<lparr>fetchedData = Some (sort_key (\<lambda>r. - created_at r) (your_table store)),
           select_error = None\<rparr>)"

datatype operation = INSERT | UPDATE | DELETE

record change_event =
  eventType :: operation
  event_schema :: string
  event_table :: string
  new_row :: "table_row option"

datatype console_line = Log_update change_event | Log_fetch_error db_error

record component =
  component_data :: "table_row list option"
  loading :: bool
  console :: "console_line list"

definition fetchData :: "data_store \<Rightarrow> component \<Rightarrow> component" where
  "fetchData store st =
     (let response = select_ordered store
      in case select_error response of
           Some e \<Rightarrow> st\<lparr>console := console st @ [Log_fetch_error e]\<rparr>
         | None \<Rightarrow> st\<lparr>component_data := fetchedData response, loading := False\<rparr>)"

text \<open>The callback passed to \<^verbatim>\<open>.on("postgres_changes", ...)\<close>.\<close>

definition onEvent :: "change_event \<Rightarrow> data_store \<Rightarrow> component \<Rightarrow> component" where
  "onEvent payload store st =
     fetchData store (st\<lparr>console := console st @ [Log_update payload]\<rparr>)"

section \<open>Properties of the middleware\<close>

lemma startsWith_prefix: "startsWith s p = prefix p s"
  by (induction s p rule: startsWith.induct) auto

lemma some_set: "some xs f = (\<exists>x\<in>set xs. f x)"
  by (induction xs) simp_all

lemma setAll_nextUrl: "nextUrl (fst (setAll st cs)) = nextUrl (fst st)"
proof -
  have "nextUrl (foldl (\<lambda>r c. r\<lparr>cookies := cookies_set (cookie_name c) (cookie_value c) (cookies r)\<rparr>) q cs)
          = nextUrl q" for q :: request
    by (induction cs arbitrary: q) simp_all
  then show ?thesis
    by (simp add: setAll_def Let_def)
qed

lemma foldl_setAll_nextUrl: "nextUrl (fst (foldl setAll st batches)) = nextUrl (fst st)"
  by (induction batches arbitrary: st) (simp_all add: setAll_nextUrl)

lemma updateSession_redirect:
  assumes "getUser (cookies req) = Inr r"
    and "decide (pathname (nextUrl req)) (data_user r) = RedirectTo target"
  shows "updateSession getUser req = Inr (NextResponse_redirect ((nextUrl req)\<lparr>pathname := target\<rparr>))"
proof -
  obtain q s where qs: "foldl setAll (req, NextResponse_next req) (setAll_calls r) = (q, s)"
    by (cases "foldl setAll (req, NextResponse_next req) (setAll_calls r)")
  have "nextUrl q = nextUrl req"
    using foldl_setAll_nextUrl [of "(req, NextResponse_next req)" "setAll_calls r"] qs by simp
  with assms qs show ?thesis
    by (simp add: updateSession_def Let_def)
qed

lemma updateSession_allow:
  assumes "getUser (cookies req) = Inr r"
    and "decide (pathname (nextUrl req)) (data_user r) = Allow"
  shows "updateSession getUser req = Inr (snd (foldl setAll (req, NextResponse_next req) (setAll_calls r)))"
proof -
  obtain q s where qs: "foldl setAll (req, NextResponse_next req) (setAll_calls r) = (q, s)"
    by (cases "foldl setAll (req, NextResponse_next req) (setAll_calls r)")
  have "nextUrl q = nextUrl req"
    using foldl_setAll_nextUrl [of "(req, NextResponse_next req)" "setAll_calls r"] qs by simp
  with assms qs show ?thesis
    by (simp add: updateSession_def Let_def)
qed

lemma updateSession_throws:
  "getUser (cookies req) = Inl thrown \<Longrightarrow> updateSession getUser req = Inl thrown"
  by (simp add: updateSession_def)

text \<open>
  C4. The route-guard decision: a path that has a protected prefix (the table is
  \<open>[''/dashboard'']\<close>) together with an absent user is redirected to the login path;
  every other combination of path and user is allowed.
\<close>

theorem decide_rule:
  "protectedRoutes = [''/dashboard''] \<and>
   decide path usr =
     (if (\<exists>p\<in>set protectedRoutes. prefix p path) \<and> usr = None
      then RedirectTo ''/login'' else Allow)"
  by (simp add: decide_def some_set startsWith_prefix protectedRoutes_def)

theorem decide_rule_witness:
  "decide ''/dashboard/clients'' None = RedirectTo ''/login'' \<and>
   decide ''/dashboard/clients'' (Some \<lparr>user_id = ''U1''\<rparr>) = Allow \<and>
   decide ''/pricing'' None = Allow"
proof -
  have a: "\<exists>p\<in>set protectedRoutes. prefix p ''/dashboard/clients''"
    by (simp add: protectedRoutes_def)
  have b: "\<not> (\<exists>p\<in>set protectedRoutes. prefix p ''/pricing'')"
    by (simp add: protectedRoutes_def)
  have "decide ''/dashboard/clients'' None = RedirectTo ''/login''"
    using a by (simp only: decide_rule [THEN conjunct2] simp_thms if_True)
  moreover have "decide ''/dashboard/clients'' (Some \<lparr>user_id = ''U1''\<rparr>) = Allow"
    by (simp only: decide_rule [THEN conjunct2] simp_thms if_False option.distinct)
  moreover have "decide ''/pricing'' None = Allow"
    using b by (simp only: decide_rule [THEN conjunct2] simp_thms if_False)
  ultimately show ?thesis by blast
qed

text \<open>
  C9. The redirect sent for a protected path without a user goes to the request's own URL
  with the pathname set to \<open>''/login''\<close>: protocol, host, port, query string and fragment
  are those of the incoming request.
\<close>

theorem redirect_keeps_url:
  assumes "getUser (cookies req) = Inr r"
    and "data_user r = None"
    and "\<exists>p\<in>set protectedRoutes. prefix p (pathname (nextUrl req))"
  shows "\<exists>resp u. updateSession getUser req = Inr resp \<and> kind resp = Redirect u \<and>
           u = (nextUrl req)\<lparr>pathname := ''/login''\<rparr> \<and>
           pathname u = ''/login'' \<and>
           protocol u = protocol (nextUrl req) \<and>
           hostname u = hostname (nextUrl req) \<and>
           port u = port (nextUrl req) \<and>
           search u = search (nextUrl req) \<and>
           hash u = hash (nextUrl req)"
proof -
  from assms(2,3) have d: "decide (pathname (nextUrl req)) (data_user r) = RedirectTo ''/login''"
    by (simp add: decide_def some_set startsWith_prefix)
  show ?thesis
    using updateSession_redirect [of getUser req r, OF assms(1) d]
    by (simp add: NextResponse_redirect_def)
qed
theorem redirect_keeps_url_witness:
  "\<exists>resp. updateSession signed_out_client stale_request = Inr resp \<and>
      kind resp =
        Redirect \<lparr>protocol = ''https:'', hostname = ''app.example.com'', port = ''3000'',
                  pathname = ''/login'', search = ''?tab=plans'', hash = ''#top''\<rparr>"
proof -
  have 1: "signed_out_client (cookies stale_request) = Inr signed_out_result"
    by (simp add: signed_out_client_def)
  have 2: "data_user signed_out_result = None"
    by (simp add: signed_out_result_def)
  have 3: "\<exists>p\<in>set protectedRoutes. prefix p (pathname (nextUrl stale_request))"
    by (simp add: protectedRoutes_def stale_request_def)
  show ?thesis
    using redirect_keeps_url [of signed_out_client stale_request signed_out_result, OF 1 2 3]
    by (simp add: stale_request_def)
qed

text \<open>
  C1. Claimed: when the session refresh captures cookie mutations and the route guard
  redirects, every captured mutation is on the redirect response that
  \<^verbatim>\<open>updateSession\<close> returns. Evaluated on a request for a protected path whose refresh
  captures one clearing mutation: the redirect that is returned has no cookie at all, while
  the same refresh on an unprotected path returns a response that carries the mutation.
\<close>

theorem redirect_drops_cookie_mutations:
  "updateSession signed_out_client stale_request =
     Inr \<lparr>kind = Redirect ((nextUrl stale_request)\<lparr>pathname := ''/login''\<rparr>),
          response_cookies = []\<rparr> \<and>
   updateSession signed_out_client
       (stale_request\<lparr>nextUrl := (nextUrl stale_request)\<lparr>pathname := ''/pricing''\<rparr>\<rparr>) =
     Inr \<lparr>kind = Next [(''theme'', ''dark''), (''sb-auth-token'', [])],
          response_cookies =
            [(''sb-auth-token'', [], \<lparr>maxAge = Some 0, cookie_path = Some ''/''\<rparr>)]\<rparr>"
proof -
  have a: "some protectedRoutes (\<lambda>p. startsWith ''/dashboard/clients'' p)"
    by (simp add: protectedRoutes_def)
  have b: "\<not> some protectedRoutes (\<lambda>p. startsWith ''/pricing'' p)"
    by (simp add: protectedRoutes_def)
  have c: "foldl setAll (q, NextResponse_next q) (setAll_calls signed_out_result) =
             (q\<lparr>cookies := cookies_set ''sb-auth-token'' [] (cookies q)\<rparr>,
              \<lparr>kind = Next (cookies_set ''sb-auth-token'' [] (cookies q)),
               response_cookies =
                 [(''sb-auth-token'', [], \<lparr>maxAge = Some 0, cookie_path = Some ''/''\<rparr>)]\<rparr>)"
    for q :: request
    by (simp add: signed_out_result_def setAll_def clearing_def NextResponse_next_def)
  have d: "data_user signed_out_result = None"
    by (simp add: signed_out_result_def)
  show ?thesis
    using a b
    by (simp add: updateSession_def signed_out_client_def c d decide_def stale_request_def
        NextResponse_redirect_def)
qed

text \<open>
  C5. For every incoming cookie set whose session token is absent, expired or rejected by
  the identity provider (or whose provider cannot be reached), the session check does not
  throw: it reports an absent user with an empty or clearing mutation set, and
  \<^verbatim>\<open>updateSession\<close> goes on to the routing decision for an absent user and returns its
  response.
\<close>

theorem invalid_session_no_throw:
  assumes "map_of (cookies req) (session_cookie idp) = None \<or>
           (\<exists>t. map_of (cookies req) (session_cookie idp) = Some t \<and>
                verdict idp t \<in> {Expired, Rejected, Unreachable})"
  shows "\<exists>r. validate_session idp (cookies req) = Inr r \<and>
           data_user r = None \<and>
           (setAll_calls r = [] \<or> (\<forall>c\<in>set (concat (setAll_calls r)). is_clearing c)) \<and>
           updateSession (validate_session idp) req =
             Inr (case decide (pathname (nextUrl req)) None of
                    RedirectTo target \<Rightarrow>
                      NextResponse_redirect ((nextUrl req)\<lparr>pathname := target\<rparr>)
                  | Allow \<Rightarrow>
                      snd (foldl setAll (req, NextResponse_next req) (setAll_calls r)))"
proof -
  from assms obtain r where r: "validate_session idp (cookies req) = Inr r"
    and u: "data_user r = None"
    and m: "setAll_calls r = [] \<or> (\<forall>c\<in>set (concat (setAll_calls r)). is_clearing c)"
    by (auto simp: validate_session_def is_clearing_def clearing_def)
  have "updateSession (validate_session idp) req =
          Inr (case decide (pathname (nextUrl req)) None of
                 RedirectTo target \<Rightarrow>
                   NextResponse_redirect ((nextUrl req)\<lparr>pathname := target\<rparr>)
               | Allow \<Rightarrow>
                   snd (foldl setAll (req, NextResponse_next req) (setAll_calls r)))"
  proof (cases "decide (pathname (nextUrl req)) None")
    case Allow
    with u updateSession_allow [of "validate_session idp" req r, OF r] show ?thesis
      by simp
  next
    case (RedirectTo target)
    with u updateSession_redirect [of "validate_session idp" req r target, OF r] show ?thesis
      by simp
  qed
  with r u m show ?thesis
    by blast
qed

theorem invalid_session_no_throw_witness:
  "validate_session stale_provider (cookies stale_request) = Inr signed_out_result \<and>
   updateSession (validate_session stale_provider) stale_request =
     Inr (NextResponse_redirect ((nextUrl stale_request)\<lparr>pathname := ''/login''\<rparr>))"
proof -
  have h: "map_of (cookies stale_request) (session_cookie stale_provider) = None \<or>
           (\<exists>t. map_of (cookies stale_request) (session_cookie stale_provider) = Some t \<and>
                verdict stale_provider t \<in> {Expired, Rejected, Unreachable})"
    by (simp add: stale_request_def stale_provider_def)
  have v: "validate_session stale_provider (cookies stale_request) = Inr signed_out_result"
    by (simp add: validate_session_def stale_request_def stale_provider_def
        signed_out_result_def)
  have d: "decide (pathname (nextUrl stale_request)) None = RedirectTo ''/login''"
    by (simp add: decide_def stale_request_def protectedRoutes_def)
  from invalid_session_no_throw [of stale_request stale_provider, OF h] v d
  show ?thesis
    by simp
qed

section \<open>Properties of signup\<close>

text \<open>The ways through \<open>signup\<close>, each with its outcome and the world it leaves.\<close>

lemma signup_identity_error:
  assumes "authError (signUp_answer b) = Some e"
  shows "signup b fd w =
           (redirect ''/login?message=Could not create account.'',
            w\<lparr>calls := calls w @
                 [SignUp (fd ''email'') (fd ''password'') ''coach'' (signUp_answer b),
                  ConsoleError ''Signup Error:'' (Auth_error e)]\<rparr>)"
  using assms
  by (simp add: signup_def auth_signUp_def console_error_def Let_def)

lemma signup_no_user:
  assumes "authError (signUp_answer b) = None"
    and "authData_user (signUp_answer b) = None"
  shows "signup b fd w =
           (redirect ''/login?message=Account creation failed.'',
            w\<lparr>calls := calls w @
                 [SignUp (fd ''email'') (fd ''password'') ''coach'' (signUp_answer b)]\<rparr>)"
  using assms
  by (simp add: signup_def auth_signUp_def Let_def)

lemma signup_empty_id:
  assumes "authError (signUp_answer b) = None"
    and "authData_user (signUp_answer b) = Some u"
    and "user_id u = []"
  shows "signup b fd w =
           (redirect ''/login?message=Account creation failed.'',
            w\<lparr>identities := identities w @ [\<lparr>identity_id = [], identity_email = fd ''email''\<rparr>],
              calls := calls w @
                 [SignUp (fd ''email'') (fd ''password'') ''coach'' (signUp_answer b)]\<rparr>)"
  using assms
  by (simp add: signup_def auth_signUp_def Let_def)

lemma signup_profile_error:
  assumes "authError (signUp_answer b) = None"
    and "authData_user (signUp_answer b) = Some u"
    and "user_id u \<noteq> []"
    and "insert_answer b = Some e"
  shows "signup b fd w =
           (redirect ''/login?message=Account setup failed.'',
            w\<lparr>identities :=
                (case deleteUser_answer b of
                   None \<Rightarrow>
                     filter (\<lambda>i. identity_id i \<noteq> user_id u)
                       (identities w @
                        [\<lparr>identity_id = user_id u, identity_email = fd ''email''\<rparr>])
                 | Some d \<Rightarrow>
                     identities w @
                     [\<lparr>identity_id = user_id u, identity_email = fd ''email''\<rparr>]),
              calls := calls w @
                 [SignUp (fd ''email'') (fd ''password'') ''coach'' (signUp_answer b),
                  Insert ''profiles''
                    \<lparr>profile_id = user_id u, profile_email = fd ''email'',
                     profile_role = ''coach''\<rparr> (Some e),
                  ConsoleError ''Profile creation error:'' (Db_error e),
                  DeleteUser (user_id u) (deleteUser_answer b)]\<rparr>)"
  using assms
  by (cases "deleteUser_answer b")
    (simp_all add: signup_def auth_signUp_def from_insert_def console_error_def
      auth_admin_deleteUser_def Let_def)

lemma signup_success:
  assumes "authError (signUp_answer b) = None"
    and "authData_user (signUp_answer b) = Some u"
    and "user_id u \<noteq> []"
    and "insert_answer b = None"
  shows "signup b fd w =
           (redirect ''/dashboard'',
            w\<lparr>identities :=
                identities w @ [\<lparr>identity_id = user_id u, identity_email = fd ''email''\<rparr>],
              profiles :=
                profiles w @
                [\<lparr>profile_id = user_id u, profile_email = fd ''email'',
                  profile_role = ''coach''\<rparr>],
              calls := calls w @
                 [SignUp (fd ''email'') (fd ''password'') ''coach'' (signUp_answer b),
                  Insert ''profiles''
                    \<lparr>profile_id = user_id u, profile_email = fd ''email'',
                     profile_role = ''coach''\<rparr> None,
                  RevalidatePath ''/'' ''layout'']\<rparr>)"
  using assms
  by (simp add: signup_def auth_signUp_def from_insert_def revalidatePath_def Let_def)

text \<open>Every run of \<open>signup\<close> goes one of these ways.\<close>

lemma signup_paths:
  obtains (identity_error) e where "authError (signUp_answer b) = Some e"
  | (no_user) "authError (signUp_answer b) = None" "authData_user (signUp_answer b) = None"
  | (empty_id) u where "authError (signUp_answer b) = None"
      "authData_user (signUp_answer b) = Some u" "user_id u = []"
  | (profile_error) u e where "authError (signUp_answer b) = None"
      "authData_user (signUp_answer b) = Some u" "user_id u \<noteq> []" "insert_answer b = Some e"
  | (success) u where "authError (signUp_answer b) = None"
      "authData_user (signUp_answer b) = Some u" "user_id u \<noteq> []" "insert_answer b = None"
  by (cases "authError (signUp_answer b)"; cases "authData_user (signUp_answer b)";
      cases "insert_answer b"; fastforce)

lemma signup_calls_identity_error:
  "authError (signUp_answer b) = Some e \<Longrightarrow>
   signup_calls b fd w =
     [SignUp (fd ''email'') (fd ''password'') ''coach'' (signUp_answer b),
      ConsoleError ''Signup Error:'' (Auth_error e)]"
  by (simp add: signup_calls_def signup_identity_error)

lemma signup_calls_no_user:
  "authError (signUp_answer b) = None \<Longrightarrow> authData_user (signUp_answer b) = None \<Longrightarrow>
   signup_calls b fd w = [SignUp (fd ''email'') (fd ''password'') ''coach'' (signUp_answer b)]"
  by (simp add: signup_calls_def signup_no_user)

lemma signup_calls_empty_id:
  "authError (signUp_answer b) = None \<Longrightarrow> authData_user (signUp_answer b) = Some u \<Longrightarrow>
   user_id u = [] \<Longrightarrow>
   signup_calls b fd w = [SignUp (fd ''email'') (fd ''password'') ''coach'' (signUp_answer b)]"
  by (simp add: signup_calls_def signup_empty_id)

lemma signup_calls_profile_error:
  "authError (signUp_answer b) = None \<Longrightarrow> authData_user (signUp_answer b) = Some u \<Longrightarrow>
   user_id u \<noteq> [] \<Longrightarrow> insert_answer b = Some e \<Longrightarrow>
   signup_calls b fd w =
     [SignUp (fd ''email'') (fd ''password'') ''coach'' (signUp_answer b),
      Insert ''profiles''
        \<lparr>profile_id = user_id u, profile_email = fd ''email'', profile_role = ''coach''\<rparr>
        (Some e),
      ConsoleError ''Profile creation error:'' (Db_error e),
      DeleteUser (user_id u) (deleteUser_answer b)]"
  by (simp add: signup_calls_def signup_profile_error)

lemma signup_calls_success:
  "authError (signUp_answer b) = None \<Longrightarrow> authData_user (signUp_answer b) = Some u \<Longrightarrow>
   user_id u \<noteq> [] \<Longrightarrow> insert_answer b = None \<Longrightarrow>
   signup_calls b fd w =
     [SignUp (fd ''email'') (fd ''password'') ''coach'' (signUp_answer b),
      Insert ''profiles''
        \<lparr>profile_id = user_id u, profile_email = fd ''email'', profile_role = ''coach''\<rparr>
        None,
      RevalidatePath ''/'' ''layout'']"
  by (simp add: signup_calls_def signup_success)

text \<open>Facts about the executions used as examples.\<close>

lemma created_U2_facts:
  "authError created_U2 = None" "authData_user created_U2 = Some \<lparr>user_id = ''U2''\<rparr>"
  by (simp_all add: created_U2_def)

lemma signup_form_facts:
  "signup_form ''email'' = Some ''a@x.com''" "signup_form ''password'' = Some ''pw''"
  by (simp_all add: signup_form_def)

text \<open>
  C8. When identity creation reports success but the answer carries no user id (no user,
  or an empty id), \<open>signup\<close> ends with the message "Account creation failed." after the
  identity call alone: no profile is written, no delete is issued, and the profile store
  is as before.
\<close>

theorem signup_without_user_id:
  assumes "authError (signUp_answer b) = None"
    and "authData_user (signUp_answer b) = None \<or>
         (\<exists>u. authData_user (signUp_answer b) = Some u \<and> user_id u = [])"
  shows "fst (signup b fd w) = redirect ''/login?message=Account creation failed.'' \<and>
         profiles (snd (signup b fd w)) = profiles w \<and>
         signup_calls b fd w =
           [SignUp (fd ''email'') (fd ''password'') ''coach'' (signUp_answer b)]"
  using assms(2)
proof
  assume "authData_user (signUp_answer b) = None"
  with assms(1) show ?thesis
    by (simp add: signup_no_user signup_calls_no_user)
next
  assume "\<exists>u. authData_user (signUp_answer b) = Some u \<and> user_id u = []"
  then obtain u where "authData_user (signUp_answer b) = Some u" "user_id u = []"
    by blast
  with assms(1) show ?thesis
    by (simp add: signup_empty_id signup_calls_empty_id)
qed

theorem signup_without_user_id_witness:
  "fst (signup no_user_returned signup_form empty_world) =
     redirect ''/login?message=Account creation failed.'' \<and>
   profiles (snd (signup no_user_returned signup_form empty_world)) = [] \<and>
   signup_calls no_user_returned signup_form empty_world =
     [SignUp (Some ''a@x.com'') (Some ''pw'') ''coach''
        \<lparr>authData_user = None, authError = None\<rparr>]"
proof -
  have 1: "authError (signUp_answer no_user_returned) = None"
    by (simp add: no_user_returned_def)
  have 2: "authData_user (signUp_answer no_user_returned) = None \<or>
           (\<exists>u. authData_user (signUp_answer no_user_returned) = Some u \<and> user_id u = [])"
    by (simp add: no_user_returned_def)
  have 3: "signUp_answer no_user_returned = \<lparr>authData_user = None, authError = None\<rparr>"
    by (simp add: no_user_returned_def)
  have 4: "profiles empty_world = []"
    by (simp add: empty_world_def)
  from signup_without_user_id [of no_user_returned signup_form empty_world, OF 1 2]
  show ?thesis
    by (simp add: 3 4 signup_form_facts)
qed

text \<open>
  C10. A successful signup stores exactly one new profile: its id is the id of the user
  that identity creation returned, its email is the email of the form, and its role is
  \<open>''coach''\<close>. In no execution does signup store or submit a profile with another role.
\<close>

theorem signup_profile_fields:
  "(fst (signup b fd w) = redirect ''/dashboard'' \<longrightarrow>
      (\<exists>u. authError (signUp_answer b) = None \<and> authData_user (signUp_answer b) = Some u \<and>
           profiles (snd (signup b fd w)) =
             profiles w @
             [\<lparr>profile_id = user_id u, profile_email = fd ''email'',
               profile_role = ''coach''\<rparr>])) \<and>
   (\<forall>p\<in>set (drop (length (profiles w)) (profiles (snd (signup b fd w)))).
      profile_role p = ''coach'') \<and>
   (\<forall>t p a. Insert t p a \<in> set (signup_calls b fd w) \<longrightarrow> profile_role p = ''coach'')"
proof (cases b rule: signup_paths)
  case (identity_error e)
  then show ?thesis
    by (simp add: signup_identity_error signup_calls_identity_error)
next
  case no_user
  then show ?thesis
    by (simp add: signup_no_user signup_calls_no_user)
next
  case (empty_id u)
  then show ?thesis
    by (simp add: signup_empty_id signup_calls_empty_id)
next
  case (profile_error u e)
  then show ?thesis
    by (simp add: signup_profile_error signup_calls_profile_error)
next
  case (success u)
  then show ?thesis
    by (simp add: signup_success signup_calls_success)
qed

theorem signup_profile_fields_witness:
  "fst (signup all_succeed signup_form empty_world) = redirect ''/dashboard'' \<and>
   profiles (snd (signup all_succeed signup_form empty_world)) =
     [\<lparr>profile_id = ''U2'', profile_email = Some ''a@x.com'', profile_role = ''coach''\<rparr>]"
proof -
  have 1: "authError (signUp_answer all_succeed) = None"
    and 2: "authData_user (signUp_answer all_succeed) = Some \<lparr>user_id = ''U2''\<rparr>"
    and 3: "insert_answer all_succeed = None"
    by (simp_all add: all_succeed_def created_U2_facts)
  have 4: "user_id \<lparr>user_id = ''U2''\<rparr> \<noteq> []"
    by simp
  have nav: "fst (signup all_succeed signup_form empty_world) = redirect ''/dashboard''"
    by (simp add: signup_success [OF 1 2 4 3])
  have 5: "profiles empty_world = []"
    by (simp add: empty_world_def)
  from signup_profile_fields [of all_succeed signup_form empty_world] nav 1 2
  show ?thesis
    by (simp add: 5 signup_form_facts)
qed

text \<open>
  C2. Claimed: when identity creation succeeds, profile creation fails and the compensating
  delete fails too, signup ends with an outcome of its own that carries both errors,
  distinct from the outcome when the delete succeeds. On the code the two executions end
  with the same redirect.
\<close>

theorem compensation_failure_not_distinct:
  "fst (signup compensation_fails signup_form empty_world) =
     redirect ''/login?message=Account setup failed.'' \<and>
   fst (signup compensation_succeeds signup_form empty_world) =
     redirect ''/login?message=Account setup failed.''"
proof -
  have u: "user_id \<lparr>user_id = ''U2''\<rparr> \<noteq> []"
    by simp
  have "fst (signup compensation_fails signup_form empty_world) =
          redirect ''/login?message=Account setup failed.''"
    by (subst signup_profile_error [where u = "\<lparr>user_id = ''U2''\<rparr>"])
      (simp_all add: compensation_fails_def created_U2_facts)
  moreover have "fst (signup compensation_succeeds signup_form empty_world) =
          redirect ''/login?message=Account setup failed.''"
    by (subst signup_profile_error [where u = "\<lparr>user_id = ''U2''\<rparr>"])
      (simp_all add: compensation_succeeds_def created_U2_facts)
  ultimately show ?thesis
    by simp
qed

text \<open>
  C2, as the code has it: when identity creation succeeds and profile creation fails,
  signup ends with the redirect "Account setup failed." whatever the compensating delete
  answers; the answer of the delete is not looked at, and the only error written to the
  console is the profile creation error.
\<close>

theorem setup_failed_whatever_delete_answers:
  assumes "authError (signUp_answer b) = None"
    and "authData_user (signUp_answer b) = Some u"
    and "user_id u \<noteq> []"
    and "insert_answer b = Some e"
  shows "fst (signup b fd w) = redirect ''/login?message=Account setup failed.'' \<and>
         fst (signup (b\<lparr>deleteUser_answer := d\<rparr>) fd w) = fst (signup b fd w) \<and>
         filter is_ConsoleError (signup_calls b fd w) =
           [ConsoleError ''Profile creation error:'' (Db_error e)]"
proof -
  have "fst (signup (b\<lparr>deleteUser_answer := d\<rparr>) fd w) =
          redirect ''/login?message=Account setup failed.''"
    by (subst signup_profile_error [where u = u and e = e]) (simp_all add: assms)
  with assms show ?thesis
    by (simp add: signup_profile_error signup_calls_profile_error)
qed

theorem setup_failed_whatever_delete_answers_witness:
  "fst (signup compensation_fails signup_form empty_world) =
     redirect ''/login?message=Account setup failed.'' \<and>
   fst (signup (compensation_fails\<lparr>deleteUser_answer := None\<rparr>) signup_form empty_world) =
     fst (signup compensation_fails signup_form empty_world) \<and>
   filter is_ConsoleError (signup_calls compensation_fails signup_form empty_world) =
     [ConsoleError ''Profile creation error:'' (Db_error (PostgrestError ''insert failed''))]"
proof -
  have 1: "authError (signUp_answer compensation_fails) = None"
    and 2: "authData_user (signUp_answer compensation_fails) = Some \<lparr>user_id = ''U2''\<rparr>"
    and 4: "insert_answer compensation_fails = Some (PostgrestError ''insert failed'')"
    by (simp_all add: compensation_fails_def created_U2_facts)
  have 3: "user_id \<lparr>user_id = ''U2''\<rparr> \<noteq> []"
    by simp
  show ?thesis
    by (rule setup_failed_whatever_delete_answers [OF 1 2 3 4])
qed

text \<open>
  C3. Claimed: after every signup either exactly one identity and one profile with the
  same id exist or neither does, except when compensation fails, and that case can be told
  from the returned outcome. On the code the execution whose compensating delete fails
  returns the same outcome as the one whose delete succeeds, while only the former leaves
  an identity without a profile.
\<close>

theorem orphan_identity_not_detectable:
  "fst (signup compensation_fails signup_form empty_world) =
     fst (signup compensation_succeeds signup_form empty_world) \<and>
   identities (snd (signup compensation_fails signup_form empty_world)) =
     [\<lparr>identity_id = ''U2'', identity_email = Some ''a@x.com''\<rparr>] \<and>
   profiles (snd (signup compensation_fails signup_form empty_world)) = [] \<and>
   identities (snd (signup compensation_succeeds signup_form empty_world)) = [] \<and>
   profiles (snd (signup compensation_succeeds signup_form empty_world)) = []"
proof -
  have f: "signup compensation_fails signup_form empty_world =
             (redirect ''/login?message=Account setup failed.'',
              \<lparr>identities = [\<lparr>identity_id = ''U2'', identity_email = Some ''a@x.com''\<rparr>],
               profiles = [],
               calls = signup_calls compensation_fails signup_form empty_world\<rparr>)"
    by (subst signup_profile_error [where u = "\<lparr>user_id = ''U2''\<rparr>"])
      (simp_all add: compensation_fails_def created_U2_facts signup_form_facts empty_world_def
        signup_calls_profile_error [where u = "\<lparr>user_id = ''U2''\<rparr>"])
  have s: "signup compensation_succeeds signup_form empty_world =
             (redirect ''/login?message=Account setup failed.'',
              \<lparr>identities = [], profiles = [],
               calls = signup_calls compensation_succeeds signup_form empty_world\<rparr>)"
    by (subst signup_profile_error [where u = "\<lparr>user_id = ''U2''\<rparr>"])
      (simp_all add: compensation_succeeds_def created_U2_facts signup_form_facts
        empty_world_def signup_calls_profile_error [where u = "\<lparr>user_id = ''U2''\<rparr>"])
  show ?thesis
    by (simp add: f s)
qed

text \<open>
  C3, as the code has it. Let the stores hold no identity and no profile under the id that
  the provider issues, a non-empty id. After signup, one of three holds. Either the outcome
  is the redirect to the dashboard and the stores have gained exactly one identity and one
  profile under that id. Or the outcome is not that redirect and both stores are as before.
  Or profile creation and the compensating delete both failed: the identity is there
  without a profile, and the outcome is the redirect "Account setup failed.", which is not
  the success outcome.
\<close>

theorem signup_atomicity:
  assumes "\<forall>u. authData_user (signUp_answer b) = Some u \<longrightarrow>
             user_id u \<noteq> [] \<and> identities_of (user_id u) w = [] \<and> profiles_of (user_id u) w = []"
  shows "(fst (signup b fd w) = redirect ''/dashboard'' \<and>
          (\<exists>uid. identities (snd (signup b fd w)) =
                    identities w @ [\<lparr>identity_id = uid, identity_email = fd ''email''\<rparr>] \<and>
                 profiles (snd (signup b fd w)) =
                    profiles w @
                    [\<lparr>profile_id = uid, profile_email = fd ''email'',
                      profile_role = ''coach''\<rparr>] \<and>
                 length (identities_of uid (snd (signup b fd w))) = 1 \<and>
                 length (profiles_of uid (snd (signup b fd w))) = 1))
       \<or> (fst (signup b fd w) \<noteq> redirect ''/dashboard'' \<and>
          identities (snd (signup b fd w)) = identities w \<and>
          profiles (snd (signup b fd w)) = profiles w)
       \<or> (fst (signup b fd w) = redirect ''/login?message=Account setup failed.'' \<and>
          fst (signup b fd w) \<noteq> redirect ''/dashboard'' \<and>
          insert_answer b \<noteq> None \<and> deleteUser_answer b \<noteq> None \<and>
          (\<exists>uid. identities (snd (signup b fd w)) =
                    identities w @ [\<lparr>identity_id = uid, identity_email = fd ''email''\<rparr>] \<and>
                 profiles (snd (signup b fd w)) = profiles w \<and>
                 length (identities_of uid (snd (signup b fd w))) = 1 \<and>
                 profiles_of uid (snd (signup b fd w)) = []))"
proof (cases b rule: signup_paths)
  case (identity_error e)
  then show ?thesis
    by (simp add: signup_identity_error)
next
  case no_user
  then show ?thesis
    by (simp add: signup_no_user)
next
  case (empty_id u)
  with assms show ?thesis
    by simp
next
  case (profile_error u e)
  with assms have fresh: "identities_of (user_id u) w = []" "profiles_of (user_id u) w = []"
    by simp_all
  from fresh(1) have keep: "filter (\<lambda>i. identity_id i \<noteq> user_id u) (identities w) = identities w"
    by (auto simp: identities_of_def filter_empty_conv filter_id_conv)
  show ?thesis
  proof (cases "deleteUser_answer b")
    case None
    with profile_error keep show ?thesis
      by (simp add: signup_profile_error)
  next
    case (Some d)
    with profile_error fresh show ?thesis
      by (simp add: signup_profile_error identities_of_def profiles_of_def)
  qed
next
  case (success u)
  with assms have fresh: "identities_of (user_id u) w = []" "profiles_of (user_id u) w = []"
    by simp_all
  with success show ?thesis
    by (simp add: signup_success identities_of_def profiles_of_def)
qed

theorem signup_atomicity_witness:
  "fst (signup all_succeed signup_form empty_world) = redirect ''/dashboard'' \<and>
   identities (snd (signup all_succeed signup_form empty_world)) =
     [\<lparr>identity_id = ''U2'', identity_email = Some ''a@x.com''\<rparr>] \<and>
   profiles (snd (signup all_succeed signup_form empty_world)) =
     [\<lparr>profile_id = ''U2'', profile_email = Some ''a@x.com'', profile_role = ''coach''\<rparr>]"
proof -
  have 1: "authError (signUp_answer all_succeed) = None"
    and 2: "authData_user (signUp_answer all_succeed) = Some \<lparr>user_id = ''U2''\<rparr>"
    and 3: "insert_answer all_succeed = None"
    by (simp_all add: all_succeed_def created_U2_facts)
  have 4: "user_id \<lparr>user_id = ''U2''\<rparr> \<noteq> []"
    by simp
  have h: "\<forall>u. authData_user (signUp_answer all_succeed) = Some u \<longrightarrow>
             user_id u \<noteq> [] \<and> identities_of (user_id u) empty_world = [] \<and>
             profiles_of (user_id u) empty_world = []"
    by (simp add: 2 identities_of_def profiles_of_def empty_world_def)
  have nav: "fst (signup all_succeed signup_form empty_world) = redirect ''/dashboard''"
    by (simp add: signup_success [OF 1 2 4 3])
  have e: "identities empty_world = []" "profiles empty_world = []"
    by (simp_all add: empty_world_def)
  have ids: "identities (snd (signup all_succeed signup_form empty_world)) =
               [\<lparr>identity_id = ''U2'', identity_email = Some ''a@x.com''\<rparr>]"
    by (simp add: signup_success [OF 1 2 4 3] e signup_form_facts)
  from signup_atomicity [of all_succeed empty_world signup_form, OF h] nav ids
  show ?thesis
    by (simp add: e signup_form_facts)
qed

text \<open>
  C6. In every signup execution the compensating delete is issued at most once. It is
  issued exactly when identity creation succeeded and the profile creation that followed
  returned a failure. When identity creation fails, signup ends with the message
  "Could not create account." and the identity call is the only store call that is made.
  A delete is never issued before a profile creation has returned a failure.
\<close>

theorem compensating_delete_once:
  "length (filter is_DeleteUser (signup_calls b fd w)) \<le> 1 \<and>
   ((\<exists>uid a. DeleteUser uid a \<in> set (signup_calls b fd w)) \<longleftrightarrow>
      authError (signUp_answer b) = None \<and>
      (\<exists>p e. Insert ''profiles'' p (Some e) \<in> set (signup_calls b fd w))) \<and>
   ((\<exists>uid a. DeleteUser uid a \<in> set (signup_calls b fd w)) \<longleftrightarrow>
      authError (signUp_answer b) = None \<and>
      (\<exists>u. authData_user (signUp_answer b) = Some u \<and> user_id u \<noteq> []) \<and>
      insert_answer b \<noteq> None) \<and>
   (authError (signUp_answer b) \<noteq> None \<longrightarrow>
      fst (signup b fd w) = redirect ''/login?message=Could not create account.'' \<and>
      filter is_store_call (signup_calls b fd w) =
        [SignUp (fd ''email'') (fd ''password'') ''coach'' (signUp_answer b)]) \<and>
   (\<forall>j<length (signup_calls b fd w).
      is_DeleteUser (signup_calls b fd w ! j) \<longrightarrow>
      (\<exists>i<j. \<exists>p e. signup_calls b fd w ! i = Insert ''profiles'' p (Some e)))"
proof (cases b rule: signup_paths)
  case (identity_error e)
  then show ?thesis
    by (simp add: signup_identity_error signup_calls_identity_error All_less_Suc)
next
  case no_user
  then show ?thesis
    by (simp add: signup_calls_no_user)
next
  case (empty_id u)
  then show ?thesis
    by (simp add: signup_calls_empty_id)
next
  case (profile_error u e)
  then show ?thesis
    by (simp add: signup_calls_profile_error All_less_Suc Ex_less_Suc)
next
  case (success u)
  then show ?thesis
    by (simp add: signup_calls_success All_less_Suc)
qed

theorem compensating_delete_once_witness:
  "signup_calls compensation_fails signup_form empty_world =
     [SignUp (Some ''a@x.com'') (Some ''pw'') ''coach'' created_U2,
      Insert ''profiles''
        \<lparr>profile_id = ''U2'', profile_email = Some ''a@x.com'', profile_role = ''coach''\<rparr>
        (Some (PostgrestError ''insert failed'')),
      ConsoleError ''Profile creation error:'' (Db_error (PostgrestError ''insert failed'')),
      DeleteUser ''U2'' (Some (AuthError ''not allowed''))] \<and>
   length (filter is_DeleteUser (signup_calls compensation_fails signup_form empty_world)) \<le> 1 \<and>
   authError (signUp_answer compensation_fails) = None \<and>
   insert_answer compensation_fails \<noteq> None"
proof -
  have 1: "authError (signUp_answer compensation_fails) = None"
    and 2: "authData_user (signUp_answer compensation_fails) = Some \<lparr>user_id = ''U2''\<rparr>"
    and 4: "insert_answer compensation_fails = Some (PostgrestError ''insert failed'')"
    and 5: "deleteUser_answer compensation_fails = Some (AuthError ''not allowed'')"
    and 6: "signUp_answer compensation_fails = created_U2"
    by (simp_all add: compensation_fails_def created_U2_facts)
  have 3: "user_id \<lparr>user_id = ''U2''\<rparr> \<noteq> []"
    by simp
  have tr: "signup_calls compensation_fails signup_form empty_world =
     [SignUp (Some ''a@x.com'') (Some ''pw'') ''coach'' created_U2,
      Insert ''profiles''
        \<lparr>profile_id = ''U2'', profile_email = Some ''a@x.com'', profile_role = ''coach''\<rparr>
        (Some (PostgrestError ''insert failed'')),
      ConsoleError ''Profile creation error:'' (Db_error (PostgrestError ''insert failed'')),
      DeleteUser ''U2'' (Some (AuthError ''not allowed''))]"
    by (simp add: signup_calls_profile_error [OF 1 2 3 4] 5 6 signup_form_facts)
  from compensating_delete_once [of compensation_fails signup_form empty_world]
  have "length (filter is_DeleteUser (signup_calls compensation_fails signup_form empty_world)) \<le> 1 \<and>
        ((\<exists>uid a. DeleteUser uid a \<in> set (signup_calls compensation_fails signup_form empty_world)) \<longleftrightarrow>
           authError (signUp_answer compensation_fails) = None \<and>
           (\<exists>u. authData_user (signUp_answer compensation_fails) = Some u \<and> user_id u \<noteq> []) \<and>
           insert_answer compensation_fails \<noteq> None)"
    by blast
  moreover have "DeleteUser ''U2'' (Some (AuthError ''not allowed''))
                   \<in> set (signup_calls compensation_fails signup_form empty_world)"
    by (simp add: tr)
  ultimately have "length (filter is_DeleteUser
                     (signup_calls compensation_fails signup_form empty_world)) \<le> 1 \<and>
                   authError (signUp_answer compensation_fails) = None \<and>
                   insert_answer compensation_fails \<noteq> None"
    by blast
  with tr show ?thesis
    by blast
qed

section \<open>Properties of the realtime component\<close>

lemma fetchData_data:
  "component_data (fetchData store st) =
     (case unavailable store of
        Some e \<Rightarrow> component_data st
      | None \<Rightarrow> Some (sort_key (\<lambda>r. - created_at r) (your_table store)))"
  by (cases "unavailable store") (simp_all add: fetchData_def select_ordered_def)

lemma fetchData_loading:
  "loading (fetchData store st) = (case unavailable store of Some e \<Rightarrow> loading st | None \<Rightarrow> False)"
  by (cases "unavailable store") (simp_all add: fetchData_def select_ordered_def)

text \<open>
  C7. Refetching is idempotent: a change event delivered to the callback twice, against
  the same store, leaves the component with the same data (and the same loading flag) as
  the event delivered once.
\<close>

theorem refetch_idempotent:
  "component_data (onEvent ev store (onEvent ev store st)) =
     component_data (onEvent ev store st) \<and>
   loading (onEvent ev store (onEvent ev store st)) = loading (onEvent ev store st)"
  by (cases "unavailable store") (simp_all add: onEvent_def fetchData_data fetchData_loading)

end
